theory Spec2Isabelle
  imports Main "HOL-Library.Sublist"
begin

section \<open>Strings\<close>

text \<open>
  The program is Python; its strings are sequences of code points. A \<^typ>\<open>string\<close> here
  is a list of \<^typ>\<open>char\<close>, read as the code points 0 to 255. The two character tables
  below are Python's \<^verbatim>\<open>str.isspace\<close> and \<^verbatim>\<open>str.isdigit\<close> on that range.
\<close>

definition isspace_char :: "char \<Rightarrow> bool" where
  "isspace_char c =
     (let n = (of_char c :: nat)
      in (9 \<le> n \<and> n \<le> 13) \<or> (28 \<le> n \<and> n \<le> 32) \<or> n = 133 \<or> n = 160)"

definition isdigit_char :: "char \<Rightarrow> bool" where
  "isdigit_char c =
     (let n = (of_char c :: nat)
      in (48 \<le> n \<and> n \<le> 57) \<or> n = 178 \<or> n = 179 \<or> n = 185)"

text \<open>\<^verbatim>\<open>s.strip()\<close>: leading and trailing whitespace removed.\<close>

definition strip :: "string \<Rightarrow> string" where
  "strip s = rev (dropWhile isspace_char (rev (dropWhile isspace_char s)))"

text \<open>\<^verbatim>\<open>s.isdigit()\<close>: at least one character, and every character a digit.\<close>

definition isdigit :: "string \<Rightarrow> bool" where
  "isdigit s = (s \<noteq> [] \<and> list_all isdigit_char s)"

text \<open>\<^verbatim>\<open>needle in hay\<close> on strings: \<open>needle\<close> occurs as a contiguous substring.\<close>

fun contains :: "string \<Rightarrow> string \<Rightarrow> bool" where
  "contains needle [] = (needle = [])"
| "contains needle (c # cs) = (prefix needle (c # cs) \<or> contains needle cs)"

text \<open>\<^verbatim>\<open>s.split(sep)\<close> for a one-character separator: never the empty list.\<close>

fun split_on :: "char \<Rightarrow> string \<Rightarrow> string list" where
  "split_on sep [] = [[]]"
| "split_on sep (c # cs) =
     (if c = sep then [] # split_on sep cs
      else (case split_on sep cs of
              [] \<Rightarrow> [[c]]
            | l # ls \<Rightarrow> (c # l) # ls))"

text \<open>\<^verbatim>\<open>sep.join(parts)\<close>.\<close>

fun join_with :: "string \<Rightarrow> string list \<Rightarrow> string" where
  "join_with sep [] = []"
| "join_with sep [l] = l"
| "join_with sep (l # m # ls) = l @ sep @ join_with sep (m # ls)"

definition newline :: char where
  "newline = CHR 0x0A"

section \<open>Exceptions\<close>

text \<open>
  An exception is its class and the text \<^verbatim>\<open>str(e)\<close> gives. Every class here is a
  subclass of Python's \<^verbatim>\<open>Exception\<close>, which is what the \<^verbatim>\<open>except\<close> clauses of the
  program catch.
\<close>

datatype exn_class =
  CalledProcessError | RuntimeError | KeyError | IndexError | OSError | OtherException

datatype exn = Exn exn_class string

fun class_of :: "exn \<Rightarrow> exn_class" where
  "class_of (Exn k m) = k"

fun str_of :: "exn \<Rightarrow> string" where
  "str_of (Exn k m) = m"

section \<open>The translation model\<close>

text \<open>
  The model is an external component. A loaded model is called with a line of text and
  the two keyword arguments \<^verbatim>\<open>max_length\<close> and \<^verbatim>\<open>truncation\<close>; it raises, or returns
  a list of dictionaries. The loader is called with the model's identifier; it raises, or
  returns the model. The loader's memoisation by \<^verbatim>\<open>st.cache_resource\<close> is left out:
  every call of the loader counts as a request for the model.
\<close>

type_synonym translation = "(string \<times> string) list list"

type_synonym translator = "string \<Rightarrow> nat \<Rightarrow> bool \<Rightarrow> exn + translation"

type_synonym loader = "string \<Rightarrow> exn + translator"

text \<open>What the program asks of the outside world, in the order it asks.\<close>

datatype event =
  LoadModel string
  | Translate string
  | Ffmpeg "string list"
  | Transcribe string

definition load_translation_model :: "loader \<Rightarrow> string \<Rightarrow> string \<Rightarrow> exn + translator" where
  "load_translation_model hub source_lang target_lang =
     hub (''Helsinki-NLP/opus-mt-'' @ source_lang @ ''-'' @ target_lang)"

text \<open>\<^verbatim>\<open>translation[0]\<close> and \<^verbatim>\<open>d["translation_text"]\<close>, with the errors Python raises.\<close>

definition first_item :: "'a list \<Rightarrow> exn + 'a" where
  "first_item xs =
     (case xs of
        [] \<Rightarrow> Inl (Exn IndexError ''list index out of range'')
      | x # _ \<Rightarrow> Inr x)"

definition getitem :: "(string \<times> string) list \<Rightarrow> string \<Rightarrow> exn + string" where
  "getitem d k =
     (case map_of d k of
        None \<Rightarrow> Inl (Exn KeyError (CHR 0x27 # k @ [CHR 0x27]))
      | Some v \<Rightarrow> Inr v)"

text \<open>The two statements of the loop body's first branch: the call, then the text taken
  out of its result.\<close>

definition translate_line :: "translator \<Rightarrow> string \<Rightarrow> exn + string" where
  "translate_line translator line =
     (case translator line 512 True of
        Inl e \<Rightarrow> Inl e
      | Inr translation \<Rightarrow>
          (case first_item translation of
             Inl e \<Rightarrow> Inl e
           | Inr d \<Rightarrow> getitem d ''translation_text''))"

text \<open>The condition of the loop body, as the source writes it.\<close>

definition needs_translation :: "string \<Rightarrow> bool" where
  "needs_translation line =
     (strip line \<noteq> [] \<and> \<not> isdigit (strip line) \<and> \<not> contains ''-->'' line)"

text \<open>
  The loop over the lines. \<open>translated_lines\<close> is the list the source appends to;
  \<open>sent\<close> collects the calls made to the model. An exception leaves the loop at once.
\<close>

fun translate_loop ::
  "translator \<Rightarrow> string list \<Rightarrow> string list \<Rightarrow> event list \<Rightarrow> (exn + string list) \<times> event list"
where
  "translate_loop translator [] translated_lines sent = (Inr translated_lines, sent)"
| "translate_loop translator (line # rest) translated_lines sent =
     (if needs_translation line then
        (case translate_line translator line of
           Inl e \<Rightarrow> (Inl e, sent @ [Translate line])
         | Inr text \<Rightarrow>
             translate_loop translator rest (translated_lines @ [text]) (sent @ [Translate line]))
      else translate_loop translator rest (translated_lines @ [line]) sent)"

definition translation_error :: "exn \<Rightarrow> exn" where
  "translation_error e = Exn RuntimeError (''Error during translation: '' @ str_of e)"

definition translate_subtitles ::
  "loader \<Rightarrow> string \<Rightarrow> string \<Rightarrow> string \<Rightarrow> (exn + string) \<times> event list"
where
  "translate_subtitles hub subtitles source_lang target_lang =
     (if source_lang = target_lang then (Inr subtitles, [])
      else
        (let loaded = [LoadModel (''Helsinki-NLP/opus-mt-'' @ source_lang @ ''-'' @ target_lang)]
         in case load_translation_model hub source_lang target_lang of
              Inl e \<Rightarrow> (Inl (translation_error e), loaded)
            | Inr translator \<Rightarrow>
                (case translate_loop translator (split_on newline subtitles) [] loaded of
                   (Inl e, sent) \<Rightarrow> (Inl (translation_error e), sent)
                 | (Inr translated_lines, sent) \<Rightarrow>
                     (Inr (join_with [newline] translated_lines), sent))))"

section \<open>Files, the tool and the service\<close>

text \<open>
  The state the program reads and writes: the temporary directory (path and contents of
  each file), the attribute \<^verbatim>\<open>openai.api_key\<close> of the imported module, the two
  entries of the session state, the message \<^verbatim>\<open>st.error\<close> shows, and the requests made
  to the outside world. Progress bar, toasts and widgets are not part of it.
\<close>

record world =
  files :: "(string \<times> string) list"
  openai_api_key :: "string option"
  api_key_confirmed :: bool
  srt_content :: string
  shown_error :: "string option"
  trace :: "event list"

text \<open>The places where an operation on a file can fail.\<close>

datatype io_op =
  CreateVideoTemp | WriteVideoTemp | CreateAudioTemp | RemoveVideoTemp | OpenAudio | RemoveAudio

text \<open>What \<^verbatim>\<open>subprocess.run\<close> can meet: the tool ran, exited with a code and left some
  bytes in its output file, or it could not be started.\<close>

datatype tool_result = Exited nat string | NotRun exn

text \<open>
  The outside world: faults of file operations, the transcoding tool (from the contents
  of its input file), the speech-to-text service (from the module's key and the audio
  bytes) and the model hub.
\<close>

record env =
  io_fault :: "io_op \<Rightarrow> exn option"
  ffmpeg :: "string option \<Rightarrow> tool_result"
  whisper :: "string option \<Rightarrow> string \<Rightarrow> exn + string"
  model_hub :: loader

text \<open>
  \<^verbatim>\<open>tempfile\<close> picks a name no file has. Here the name is longer than every name in
  the directory, hence unused.
\<close>

definition temp_name :: "(string \<times> string) list \<Rightarrow> string \<Rightarrow> string" where
  "temp_name fs ending =
     ''/tmp/tmp'' @ replicate (Suc (foldr max (map (length \<circ> fst) fs) 0)) CHR ''x'' @ ending"

definition NamedTemporaryFile ::
  "env \<Rightarrow> io_op \<Rightarrow> string \<Rightarrow> world \<Rightarrow> (exn + string) \<times> world"
where
  "NamedTemporaryFile env op ending w =
     (case io_fault env op of
        Some e \<Rightarrow> (Inl e, w)
      | None \<Rightarrow>
          (let name = temp_name (files w) ending
           in (Inr name, w\<lparr>files := files w @ [(name, [])]\<rparr>)))"

definition set_contents :: "string \<Rightarrow> string \<Rightarrow> world \<Rightarrow> world" where
  "set_contents path data w =
     w\<lparr>files := map (\<lambda>(q, d). if q = path then (q, data) else (q, d)) (files w)\<rparr>"

definition file_write ::
  "env \<Rightarrow> io_op \<Rightarrow> string \<Rightarrow> string \<Rightarrow> world \<Rightarrow> (exn + unit) \<times> world"
where
  "file_write env op path data w =
     (case io_fault env op of
        Some e \<Rightarrow> (Inl e, w)
      | None \<Rightarrow> (Inr (), set_contents path data w))"

definition os_remove :: "env \<Rightarrow> io_op \<Rightarrow> string \<Rightarrow> world \<Rightarrow> (exn + unit) \<times> world" where
  "os_remove env op path w =
     (case io_fault env op of
        Some e \<Rightarrow> (Inl e, w)
      | None \<Rightarrow>
          (case map_of (files w) path of
             None \<Rightarrow> (Inl (Exn OSError (''No such file or directory: '' @ path)), w)
           | Some _ \<Rightarrow> (Inr (), w\<lparr>files := filter (\<lambda>(q, d). q \<noteq> path) (files w)\<rparr>)))"

definition open_rb :: "env \<Rightarrow> io_op \<Rightarrow> string \<Rightarrow> world \<Rightarrow> exn + string" where
  "open_rb env op path w =
     (case io_fault env op of
        Some e \<Rightarrow> Inl e
      | None \<Rightarrow>
          (case map_of (files w) path of
             None \<Rightarrow> Inl (Exn OSError (''No such file or directory: '' @ path))
           | Some d \<Rightarrow> Inr d))"

function show_nat :: "nat \<Rightarrow> string" where
  "show_nat n =
     (if n < 10 then [char_of (48 + n)]
      else show_nat (n div 10) @ [char_of (48 + n mod 10)])"
  by pat_completeness auto
termination
  by (relation "measure id") auto

declare show_nat.simps [simp del]

definition repr_str :: "string \<Rightarrow> string" where
  "repr_str s = CHR 0x27 # s @ [CHR 0x27]"

definition repr_list :: "string list \<Rightarrow> string" where
  "repr_list xs = ''['' @ join_with '', '' (map repr_str xs) @ '']''"

text \<open>\<^verbatim>\<open>subprocess.run(command, check=True)\<close>.\<close>

definition subprocess_run ::
  "env \<Rightarrow> string list \<Rightarrow> string \<Rightarrow> string \<Rightarrow> world \<Rightarrow> (exn + unit) \<times> world"
where
  "subprocess_run env command input output w =
     (let w1 = w\<lparr>trace := trace w @ [Ffmpeg command]\<rparr>
      in case ffmpeg env (map_of (files w) input) of
           NotRun e \<Rightarrow> (Inl e, w1)
         | Exited code written \<Rightarrow>
             (let w2 = set_contents output written w1
              in if code \<noteq> 0 then
                   (Inl (Exn CalledProcessError
                          (''Command '' @ repr_str (repr_list command)
                             @ '' returned non-zero exit status '' @ show_nat code @ ''.'')),
                    w2)
                 else (Inr (), w2)))"

text \<open>The two \<^verbatim>\<open>except\<close> clauses of \<^verbatim>\<open>extract_audio_to_mp3\<close>, in their order.\<close>

definition extraction_error :: "exn \<Rightarrow> exn" where
  "extraction_error e =
     (if class_of e = CalledProcessError then Exn RuntimeError (''FFmpeg error: '' @ str_of e)
      else Exn RuntimeError (''Unexpected error: '' @ str_of e))"

definition extract_audio_to_mp3 :: "env \<Rightarrow> string \<Rightarrow> world \<Rightarrow> (exn + string) \<times> world" where
  "extract_audio_to_mp3 env video_file w =
     (case NamedTemporaryFile env CreateVideoTemp ''.mp4'' w of
        (Inl e, w1) \<Rightarrow> (Inl (extraction_error e), w1)
      | (Inr video_temp_path, w1) \<Rightarrow>
          (case file_write env WriteVideoTemp video_temp_path video_file w1 of
             (Inl e, w2) \<Rightarrow> (Inl (extraction_error e), w2)
           | (Inr _, w2) \<Rightarrow>
               (case NamedTemporaryFile env CreateAudioTemp ''.mp3'' w2 of
                  (Inl e, w3) \<Rightarrow> (Inl (extraction_error e), w3)
                | (Inr audio_output_path, w3) \<Rightarrow>
                    (let command = [''ffmpeg'', ''-i'', video_temp_path, ''-q:a'', ''0'',
                                    ''-map'', ''a'', audio_output_path, ''-y'']
                     in case subprocess_run env command video_temp_path audio_output_path w3 of
                          (Inl e, w4) \<Rightarrow> (Inl (extraction_error e), w4)
                        | (Inr _, w4) \<Rightarrow>
                            (case os_remove env RemoveVideoTemp video_temp_path w4 of
                               (Inl e, w5) \<Rightarrow> (Inl (extraction_error e), w5)
                             | (Inr _, w5) \<Rightarrow> (Inr audio_output_path, w5))))))"

definition set_openai_api_key :: "string \<Rightarrow> world \<Rightarrow> world" where
  "set_openai_api_key api_key w = w\<lparr>openai_api_key := Some api_key\<rparr>"

text \<open>The service is called through the module, which reads the key from its own
  attribute.\<close>

definition generate_subtitles :: "env \<Rightarrow> string \<Rightarrow> string \<Rightarrow> world \<Rightarrow> (exn + string) \<times> world" where
  "generate_subtitles env audio_path api_key w =
     (let w1 = set_openai_api_key api_key w
      in case open_rb env OpenAudio audio_path w1 of
           Inl e \<Rightarrow> (Inl e, w1)
         | Inr f \<Rightarrow>
             (let w2 = w1\<lparr>trace := trace w1 @ [Transcribe audio_path]\<rparr>
              in case whisper env (openai_api_key w2) f of
                   Inl e \<Rightarrow> (Inl e, w2)
                 | Inr transcript \<Rightarrow> (Inr transcript, w2)))"

section \<open>The run\<close>

definition language_code_map :: "(string \<times> string) list" where
  "language_code_map =
     [(''English'', ''en''), (''Russian'', ''ru''), (''Ukrainian'', ''uk''), (''Polish'', ''pl'')]"

definition st_error :: "exn \<Rightarrow> world \<Rightarrow> world" where
  "st_error e w = w\<lparr>shown_error := Some (''An error occurred: '' @ str_of e)\<rparr>"

text \<open>The block under \<^verbatim>\<open>if uploaded_file and create_subtitles_button\<close>: each stage in
  turn inside one \<^verbatim>\<open>try\<close>, the audio file removed as the last statement of it.\<close>

definition run_pipeline :: "env \<Rightarrow> string \<Rightarrow> string \<Rightarrow> string \<Rightarrow> string \<Rightarrow> world \<Rightarrow> world" where
  "run_pipeline env uploaded_file api_key source_language_code target_language_code w =
     (case extract_audio_to_mp3 env uploaded_file w of
        (Inl e, w1) \<Rightarrow> st_error e w1
      | (Inr audio_path, w1) \<Rightarrow>
          (case generate_subtitles env audio_path api_key w1 of
             (Inl e, w2) \<Rightarrow> st_error e w2
           | (Inr subtitles, w2) \<Rightarrow>
               (case translate_subtitles (model_hub env) subtitles
                       source_language_code target_language_code of
                  (Inl e, sent) \<Rightarrow> st_error e (w2\<lparr>trace := trace w2 @ sent\<rparr>)
                | (Inr translated_subtitles, sent) \<Rightarrow>
                    (let w3 = w2\<lparr>trace := trace w2 @ sent, srt_content := translated_subtitles\<rparr>
                     in case os_remove env RemoveAudio audio_path w3 of
                          (Inl e, w4) \<Rightarrow> st_error e w4
                        | (Inr _, w4) \<Rightarrow> w4))))"

text \<open>What the user's interaction supplies to one execution of the script.\<close>

record request =
  api_key :: string
  confirm_api_key :: bool
  source_language :: string
  target_language :: string
  uploaded_file :: "string option"
  create_subtitles_button :: bool

datatype outcome = Stopped | Raised exn | Completed

definition getitem_code :: "string \<Rightarrow> exn + string" where
  "getitem_code language =
     (case map_of language_code_map language of
        None \<Rightarrow> Inl (Exn KeyError (repr_str language))
      | Some code \<Rightarrow> Inr code)"

text \<open>
  One execution of the script, from the confirmation of the key to the end of the run
  block. \<^verbatim>\<open>st.stop()\<close> and an uncaught exception both end the execution where they
  occur.
\<close>

definition script :: "env \<Rightarrow> request \<Rightarrow> world \<Rightarrow> outcome \<times> world" where
  "script env req w =
     (let w1 = (if confirm_api_key req \<and> api_key req \<noteq> []
                then w\<lparr>api_key_confirmed := True\<rparr> else w)
      in if \<not> api_key_confirmed w1 then (Stopped, w1)
         else
           (case getitem_code (source_language req) of
              Inl e \<Rightarrow> (Raised e, w1)
            | Inr source_language_code \<Rightarrow>
                (case getitem_code (target_language req) of
                   Inl e \<Rightarrow> (Raised e, w1)
                 | Inr target_language_code \<Rightarrow>
                     (case uploaded_file req of
                        None \<Rightarrow> (Completed, w1)
                      | Some video \<Rightarrow>
                          if create_subtitles_button req then
                            (Completed,
                             run_pipeline env video (api_key req)
                               source_language_code target_language_code w1)
                          else (Completed, w1)))))"


section \<open>Auxiliary notions, test doubles and sample data\<close>

text \<open>The relation between a line of the input and what the loop appends for it.\<close>

definition piece_of :: "translator \<Rightarrow> string \<Rightarrow> string \<Rightarrow> bool" where
  "piece_of t line p = (if needs_translation line then translate_line t line = Inr p else p = line)"

text \<open>A model that marks each line it is given, one that answers in two lines, and one
  that raises on every call; a hub that serves each of them under any identifier.\<close>

definition marking_translator :: translator where
  "marking_translator line max_length truncation = Inr [[(''translation_text'', ''T:'' @ line)]]"

definition two_line_translator :: translator where
  "two_line_translator line max_length truncation =
     Inr [[(''translation_text'', ''Guten Tag,'' @ [newline] @ ''Welt'')]]"

definition raising_translator :: translator where
  "raising_translator line max_length truncation = Inl (Exn OtherException ''out of memory'')"

definition marking_hub :: loader where
  "marking_hub model_id = Inr marking_translator"

definition two_line_hub :: loader where
  "two_line_hub model_id = Inr two_line_translator"

definition raising_hub :: loader where
  "raising_hub model_id = Inr raising_translator"

text \<open>One caption block followed by a blank line and a stray padded number.\<close>

definition sample_srt :: string where
  "sample_srt =
     ''1'' @ [newline] @ ''00:00:01,000 --> 00:00:02,000'' @ [newline] @ ''Hello world''
       @ [newline] @ [newline] @ '' 12 ''"

text \<open>A document whose first line is text, followed by an index line and a timing
  line.\<close>

definition text_first_srt :: string where
  "text_first_srt = ''Hello'' @ [newline] @ ''1'' @ [newline] @ ''00:00:01,000 --> 00:00:02,000''"

text \<open>Something went wrong on the way to a complete audio file: a file operation failed,
  or the tool did not run to exit code 0.\<close>

definition extraction_fault :: "env \<Rightarrow> string \<Rightarrow> bool" where
  "extraction_fault env video_file =
     (io_fault env CreateVideoTemp \<noteq> None
      \<or> io_fault env WriteVideoTemp \<noteq> None
      \<or> io_fault env CreateAudioTemp \<noteq> None
      \<or> (case ffmpeg env (Some video_file) of Exited code written \<Rightarrow> code \<noteq> 0 | NotRun e \<Rightarrow> True)
      \<or> io_fault env RemoveVideoTemp \<noteq> None)"

text \<open>A session whose key was confirmed, with an empty temporary directory; an outside
  world in which everything works; and three in which one stage fails.\<close>

definition confirmed_session :: world where
  "confirmed_session =
     \<lparr>files = [], openai_api_key = None, api_key_confirmed = True, srt_content = [],
      shown_error = None, trace = []\<rparr>"

definition working_env :: env where
  "working_env =
     \<lparr>io_fault = (\<lambda>op. None),
      ffmpeg = (\<lambda>input. Exited 0 ''AUDIO''),
      whisper = (\<lambda>key audio. Inr sample_srt),
      model_hub = marking_hub\<rparr>"

definition failing_tool_env :: env where
  "failing_tool_env = working_env\<lparr>ffmpeg := (\<lambda>input. Exited 1 ''AU'')\<rparr>"

definition rejecting_service_env :: env where
  "rejecting_service_env =
     working_env\<lparr>whisper := (\<lambda>key audio. Inl (Exn OtherException ''Incorrect API key provided''))\<rparr>"

definition failing_model_env :: env where
  "failing_model_env = working_env\<lparr>model_hub := raising_hub\<rparr>"

definition sample_request :: request where
  "sample_request =
     \<lparr>api_key = ''sk-secret'', confirm_api_key = False, source_language = ''English'',
      target_language = ''Polish'', uploaded_file = Some ''VIDEO'',
      create_subtitles_button = True\<rparr>"

section \<open>Splitting and joining\<close>

lemma split_on_not_Nil: "split_on sep s \<noteq> []"
  by (induction s) (auto split: list.splits)

lemma join_with_split_on: "join_with [sep] (split_on sep s) = s"
proof (induction s)
  case Nil
  show ?case by simp
next
  case (Cons c cs)
  obtain l ls where eq: "split_on sep cs = l # ls"
    using split_on_not_Nil [of sep cs] by (cases "split_on sep cs") auto
  with Cons show ?case by (cases ls) auto
qed

lemma split_on_no_sep: "l \<in> set (split_on sep s) \<Longrightarrow> sep \<notin> set l"
proof (induction s arbitrary: l)
  case Nil
  then show ?case by simp
next
  case (Cons c cs)
  then show ?case by (auto split: if_splits list.splits)
qed

lemma split_on_append_sep:
  "sep \<notin> set p \<Longrightarrow> split_on sep (p @ sep # s) = p # split_on sep s"
  by (induction p) auto

lemma split_on_single: "sep \<notin> set p \<Longrightarrow> split_on sep p = [p]"
  by (induction p) auto

lemma split_on_join_with:
  "ps \<noteq> [] \<Longrightarrow> \<forall>p\<in>set ps. sep \<notin> set p \<Longrightarrow> split_on sep (join_with [sep] ps) = ps"
proof (induction "[sep]" ps rule: join_with.induct)
  case 1
  then show ?case by simp
next
  case (2 l)
  then show ?case by (simp add: split_on_single)
next
  case (3 l m ls)
  then show ?case by (simp add: split_on_append_sep)
qed

lemma digit_not_space: "isdigit_char c \<Longrightarrow> \<not> isspace_char c"
  by (auto simp: isdigit_char_def isspace_char_def Let_def)

lemma dropWhile_none: "\<forall>x\<in>set xs. \<not> P x \<Longrightarrow> dropWhile P xs = xs"
  by (cases xs) auto

lemma strip_digits: "isdigit s \<Longrightarrow> strip s = s"
  unfolding isdigit_def strip_def
  by (simp add: dropWhile_none digit_not_space list_all_iff)

lemma digits_pass: "isdigit line \<Longrightarrow> \<not> needs_translation line"
  by (simp add: needs_translation_def strip_digits)

lemma timing_pass: "contains ''-->'' line \<Longrightarrow> \<not> needs_translation line"
  by (simp add: needs_translation_def)

lemma loop_ok:
  "translate_loop t ls acc sent = (Inr out, sent') \<Longrightarrow>
     (\<exists>ps. out = acc @ ps \<and> list_all2 (piece_of t) ls ps)
     \<and> sent' = sent @ map Translate (filter needs_translation ls)"
proof (induction ls arbitrary: acc sent)
  case Nil
  then show ?case by simp
next
  case (Cons l ls)
  show ?case
  proof (cases "needs_translation l")
    case True
    with Cons.prems obtain tx where t: "translate_line t l = Inr tx"
      and rec: "translate_loop t ls (acc @ [tx]) (sent @ [Translate l]) = (Inr out, sent')"
      by (auto split: sum.splits)
    from Cons.IH [OF rec] obtain ps where ps: "out = (acc @ [tx]) @ ps"
      "list_all2 (piece_of t) ls ps"
      and s: "sent' = (sent @ [Translate l]) @ map Translate (filter needs_translation ls)"
      by blast
    from True t have "piece_of t l tx" by (simp add: piece_of_def)
    with ps have "out = acc @ (tx # ps) \<and> list_all2 (piece_of t) (l # ls) (tx # ps)" by simp
    with s True show ?thesis by auto
  next
    case False
    with Cons.prems have rec: "translate_loop t ls (acc @ [l]) sent = (Inr out, sent')"
      by simp
    from Cons.IH [OF rec] obtain ps where ps: "out = (acc @ [l]) @ ps"
      "list_all2 (piece_of t) ls ps"
      and s: "sent' = sent @ map Translate (filter needs_translation ls)"
      by blast
    from False have "piece_of t l l" by (simp add: piece_of_def)
    with ps have "out = acc @ (l # ps) \<and> list_all2 (piece_of t) (l # ls) (l # ps)" by simp
    with s False show ?thesis by auto
  qed
qed

lemma loop_sent:
  "\<exists>k. snd (translate_loop t ls acc sent) = sent @ map Translate (take k (filter needs_translation ls))"
proof (induction ls arbitrary: acc sent)
  case Nil
  then show ?case by simp
next
  case (Cons l ls)
  show ?case
  proof (cases "needs_translation l")
    case False
    with Cons.IH [of "acc @ [l]" sent] show ?thesis by simp
  next
    case True
    show ?thesis
    proof (cases "translate_line t l")
      case (Inl e)
      with True have "snd (translate_loop t (l # ls) acc sent)
          = sent @ map Translate (take 1 (filter needs_translation (l # ls)))"
        by simp
      then show ?thesis by blast
    next
      case (Inr tx)
      from Cons.IH [of "acc @ [tx]" "sent @ [Translate l]"]
      obtain k where "snd (translate_loop t ls (acc @ [tx]) (sent @ [Translate l]))
          = (sent @ [Translate l]) @ map Translate (take k (filter needs_translation ls))"
        by blast
      with True Inr have "snd (translate_loop t (l # ls) acc sent)
          = sent @ map Translate (take (Suc k) (filter needs_translation (l # ls)))"
        by simp
      then show ?thesis by blast
    qed
  qed
qed

lemma loop_fail:
  "l \<in> set ls \<Longrightarrow> needs_translation l \<Longrightarrow> translate_line t l = Inl e \<Longrightarrow>
     \<exists>l' e'. l' \<in> set ls \<and> needs_translation l' \<and> translate_line t l' = Inl e'
        \<and> fst (translate_loop t ls acc sent) = Inl e'"
proof (induction ls arbitrary: acc sent)
  case Nil
  then show ?case by simp
next
  case (Cons x xs)
  show ?case
  proof (cases "needs_translation x")
    case False
    with Cons.prems have "l \<in> set xs" by auto
    from Cons.IH [OF this Cons.prems(2,3), of "acc @ [x]" sent] False
    show ?thesis by auto
  next
    case True
    show ?thesis
    proof (cases "translate_line t x")
      case (Inl e0)
      with True show ?thesis by auto
    next
      case (Inr tx)
      with Cons.prems have "l \<in> set xs" by auto
      from Cons.IH [OF this Cons.prems(2,3), of "acc @ [tx]" "sent @ [Translate x]"] True Inr
      show ?thesis by auto
    qed
  qed
qed

section \<open>What a call of the translator returns and sends\<close>

lemma translate_subtitles_returns:
  assumes "source_lang \<noteq> target_lang"
    and "translate_subtitles hub subtitles source_lang target_lang = (Inr out, sent)"
  shows "\<exists>t ps. load_translation_model hub source_lang target_lang = Inr t
           \<and> out = join_with [newline] ps
           \<and> list_all2 (piece_of t) (split_on newline subtitles) ps
           \<and> sent = LoadModel (''Helsinki-NLP/opus-mt-'' @ source_lang @ ''-'' @ target_lang)
                 # map Translate (filter needs_translation (split_on newline subtitles))"
proof -
  from assms obtain t where t: "load_translation_model hub source_lang target_lang = Inr t"
    by (cases "load_translation_model hub source_lang target_lang")
       (auto simp: translate_subtitles_def)
  let ?start = "[LoadModel (''Helsinki-NLP/opus-mt-'' @ source_lang @ ''-'' @ target_lang)]"
  obtain r s where rs: "translate_loop t (split_on newline subtitles) [] ?start = (r, s)"
    by (cases "translate_loop t (split_on newline subtitles) [] ?start") auto
  with assms t obtain ps where r: "r = Inr ps" and out: "out = join_with [newline] ps"
    and s: "s = sent"
    by (cases r) (auto simp: translate_subtitles_def)
  from loop_ok [OF rs [unfolded r]] s
  have "list_all2 (piece_of t) (split_on newline subtitles) ps"
    and "sent = ?start @ map Translate (filter needs_translation (split_on newline subtitles))"
    by auto
  with t out show ?thesis by auto
qed

lemma translate_subtitles_sent:
  assumes "source_lang \<noteq> target_lang"
  shows "\<exists>k. snd (translate_subtitles hub subtitles source_lang target_lang)
           = LoadModel (''Helsinki-NLP/opus-mt-'' @ source_lang @ ''-'' @ target_lang)
               # map Translate (take k (filter needs_translation (split_on newline subtitles)))"
proof (cases "load_translation_model hub source_lang target_lang")
  case (Inl e)
  with assms have "snd (translate_subtitles hub subtitles source_lang target_lang)
      = LoadModel (''Helsinki-NLP/opus-mt-'' @ source_lang @ ''-'' @ target_lang)
          # map Translate (take 0 (filter needs_translation (split_on newline subtitles)))"
    by (simp add: translate_subtitles_def)
  then show ?thesis by blast
next
  case (Inr t)
  let ?start = "[LoadModel (''Helsinki-NLP/opus-mt-'' @ source_lang @ ''-'' @ target_lang)]"
  from loop_sent [of t "split_on newline subtitles" "[]" ?start]
  obtain k where k: "snd (translate_loop t (split_on newline subtitles) [] ?start)
      = ?start @ map Translate (take k (filter needs_translation (split_on newline subtitles)))"
    by blast
  from assms Inr have "snd (translate_subtitles hub subtitles source_lang target_lang)
      = snd (translate_loop t (split_on newline subtitles) [] ?start)"
    by (auto simp: translate_subtitles_def split: prod.splits sum.splits)
  with k show ?thesis by auto
qed

lemma sample_lines:
  "split_on newline sample_srt
     = [''1'', ''00:00:01,000 --> 00:00:02,000'', ''Hello world'', [], '' 12 '']"
  by (simp add: sample_srt_def newline_def)

lemma sample_marked:
  "translate_subtitles marking_hub sample_srt ''en'' ''ru''
     = (Inr (''1'' @ [newline] @ ''00:00:01,000 --> 00:00:02,000'' @ [newline] @ ''T:Hello world''
               @ [newline] @ [newline] @ '' 12 ''),
        [LoadModel ''Helsinki-NLP/opus-mt-en-ru'', Translate ''Hello world''])"
  by (simp add: translate_subtitles_def load_translation_model_def marking_hub_def sample_lines
      needs_translation_def strip_def isdigit_def isspace_char_def isdigit_char_def
      translate_line_def marking_translator_def first_item_def getitem_def)

lemma sample_two_lines:
  "translate_subtitles two_line_hub ''Hello'' ''en'' ''ru''
     = (Inr (''Guten Tag,'' @ [newline] @ ''Welt''),
        [LoadModel ''Helsinki-NLP/opus-mt-en-ru'', Translate ''Hello''])"
  by (simp add: translate_subtitles_def load_translation_model_def two_line_hub_def newline_def
      needs_translation_def strip_def isdigit_def isspace_char_def isdigit_char_def
      translate_line_def two_line_translator_def first_item_def getitem_def)

lemma text_first_lines:
  "split_on newline text_first_srt = [''Hello'', ''1'', ''00:00:01,000 --> 00:00:02,000'']"
  by (simp add: text_first_srt_def newline_def)

lemma text_first_two_lines:
  "translate_subtitles two_line_hub text_first_srt ''en'' ''ru''
     = (Inr (''Guten Tag,'' @ [newline] @ ''Welt'' @ [newline] @ ''1'' @ [newline]
               @ ''00:00:01,000 --> 00:00:02,000''),
        [LoadModel ''Helsinki-NLP/opus-mt-en-ru'', Translate ''Hello''])"
  by (simp add: translate_subtitles_def load_translation_model_def two_line_hub_def
      text_first_lines needs_translation_def strip_def isdigit_def isspace_char_def
      isdigit_char_def translate_line_def two_line_translator_def first_item_def getitem_def)

lemma pieces_one_line:
  assumes "list_all2 (piece_of t) (split_on newline s) ps"
    and "\<forall>line answer. line \<in> set (split_on newline s) \<and> translate_line t line = Inr answer
           \<longrightarrow> newline \<notin> set answer"
  shows "\<forall>p \<in> set ps. newline \<notin> set p"
proof
  fix p assume "p \<in> set ps"
  then obtain i where i: "i < length ps" and p: "p = ps ! i"
    by (auto simp: in_set_conv_nth)
  from assms(1) have len: "length ps = length (split_on newline s)"
    by (simp add: list_all2_lengthD)
  with i have mem: "split_on newline s ! i \<in> set (split_on newline s)" by simp
  from list_all2_nthD2 [OF assms(1) i] p have "piece_of t (split_on newline s ! i) p" by simp
  then have "translate_line t (split_on newline s ! i) = Inr p \<or> p = split_on newline s ! i"
    by (simp add: piece_of_def split: if_splits)
  then show "newline \<notin> set p"
  proof
    assume "translate_line t (split_on newline s ! i) = Inr p"
    with assms(2) mem show ?thesis by blast
  next
    assume "p = split_on newline s ! i"
    with mem split_on_no_sep show ?thesis by metis
  qed
qed

lemma join_pieces_lines:
  assumes "list_all2 (piece_of t) (split_on newline s) ps"
  shows "(\<forall>p \<in> set ps. newline \<notin> set p) \<Longrightarrow> split_on newline (join_with [newline] ps) = ps"
proof -
  assume one: "\<forall>p \<in> set ps. newline \<notin> set p"
  from assms have "length ps = length (split_on newline s)" by (simp add: list_all2_lengthD)
  with split_on_not_Nil [of newline s] have "ps \<noteq> []" by auto
  from split_on_join_with [OF this one] show ?thesis .
qed

lemma marking_answers_one_line:
  "line \<in> set (split_on newline s) \<Longrightarrow> translate_line marking_translator line = Inr answer
     \<Longrightarrow> newline \<notin> set answer"
  by (auto simp: translate_line_def marking_translator_def first_item_def getitem_def newline_def
      dest: split_on_no_sep)

lemma marking_hub_loads: "load_translation_model marking_hub a b = Inr t \<Longrightarrow> t = marking_translator"
  by (simp add: load_translation_model_def marking_hub_def)

section \<open>Temporary files\<close>

lemma name_length_bound: "(q, d) \<in> set fs \<Longrightarrow> length q \<le> foldr max (map (length \<circ> fst) fs) 0"
  by (induction fs) auto

lemma temp_name_fresh: "map_of fs (temp_name fs ending) = None"
proof -
  have "temp_name fs ending \<notin> fst ` set fs"
  proof
    assume "temp_name fs ending \<in> fst ` set fs"
    then obtain d where "(temp_name fs ending, d) \<in> set fs" by auto
    from name_length_bound [OF this] show False by (simp add: temp_name_def)
  qed
  then show ?thesis by (simp add: map_of_eq_None_iff)
qed

lemma map_of_rewritten:
  "map_of (map (\<lambda>(q, d). if q = p then (q, data) else (q, d)) fs) x
     = (if x = p then (case map_of fs p of None \<Rightarrow> None | Some _ \<Rightarrow> Some data) else map_of fs x)"
  by (induction fs) (auto split: option.splits)

lemma map_of_removed:
  "map_of (filter (\<lambda>(q, d). q \<noteq> p) fs) x = (if x = p then None else map_of fs x)"
  by (induction fs) auto

lemma extract_audio_ok:
  assumes "io_fault env CreateVideoTemp = None" "io_fault env WriteVideoTemp = None"
    "io_fault env CreateAudioTemp = None" "ffmpeg env (Some video_file) = Exited 0 audio"
    "io_fault env RemoveVideoTemp = None"
  shows "\<exists>p w'. extract_audio_to_mp3 env video_file w = (Inr p, w')
           \<and> map_of (files w') p = Some audio
           \<and> map_of (files w') (temp_name (files w) ''.mp4'') = None"
proof -
  let ?v = "temp_name (files w) ''.mp4''"
  let ?fs2 = "map (\<lambda>(q, d). if q = ?v then (q, video_file) else (q, d)) (files w @ [(?v, [])])"
  let ?a = "temp_name ?fs2 ''.mp3''"
  have v2: "map_of ?fs2 ?v = Some video_file"
    by (simp add: map_of_rewritten map_add_def temp_name_fresh)
  have a2: "map_of ?fs2 ?a = None" by (rule temp_name_fresh)
  from v2 a2 have ne: "?a \<noteq> ?v" by auto
  show ?thesis
    using assms v2 a2 ne
    by (simp add: extract_audio_to_mp3_def NamedTemporaryFile_def file_write_def set_contents_def
        subprocess_run_def os_remove_def Let_def map_of_rewritten map_of_removed map_add_def
        del: map_append map_map)
qed

lemma extract_audio_faulty:
  assumes "extraction_fault env video_file"
  shows "\<exists>e. fst (extract_audio_to_mp3 env video_file w) = Inl (extraction_error e)"
proof -
  let ?v = "temp_name (files w) ''.mp4''"
  let ?fs2 = "map (\<lambda>(q, d). if q = ?v then (q, video_file) else (q, d)) (files w @ [(?v, [])])"
  have v2: "map_of ?fs2 ?v = Some video_file"
    by (simp add: map_of_rewritten map_add_def temp_name_fresh)
  show ?thesis
    using assms v2
    by (auto simp add: extraction_fault_def extract_audio_to_mp3_def NamedTemporaryFile_def
        file_write_def set_contents_def subprocess_run_def os_remove_def Let_def map_add_def
        simp del: map_append map_map
        split: option.splits tool_result.splits)
qed

lemma sample_marked_pl:
  "translate_subtitles marking_hub sample_srt ''en'' ''pl''
     = (Inr (''1'' @ [newline] @ ''00:00:01,000 --> 00:00:02,000'' @ [newline] @ ''T:Hello world''
               @ [newline] @ [newline] @ '' 12 ''),
        [LoadModel ''Helsinki-NLP/opus-mt-en-pl'', Translate ''Hello world''])"
  by (simp add: translate_subtitles_def load_translation_model_def marking_hub_def sample_lines
      needs_translation_def strip_def isdigit_def isspace_char_def isdigit_char_def
      translate_line_def marking_translator_def first_item_def getitem_def)

lemma sample_raising_pl:
  "translate_subtitles raising_hub sample_srt ''en'' ''pl''
     = (Inl (Exn RuntimeError ''Error during translation: out of memory''),
        [LoadModel ''Helsinki-NLP/opus-mt-en-pl'', Translate ''Hello world''])"
  by (simp add: translate_subtitles_def load_translation_model_def raising_hub_def sample_lines
      needs_translation_def strip_def isdigit_def isspace_char_def isdigit_char_def
      translate_line_def raising_translator_def translation_error_def)

lemmas run_defs = script_def sample_request_def confirmed_session_def working_env_def
  getitem_code_def language_code_map_def run_pipeline_def extract_audio_to_mp3_def
  NamedTemporaryFile_def file_write_def set_contents_def subprocess_run_def os_remove_def
  Let_def temp_name_def generate_subtitles_def set_openai_api_key_def open_rb_def st_error_def

lemma run_works:
  "script working_env sample_request confirmed_session
     = (Completed,
        \<lparr>files = [], openai_api_key = Some ''sk-secret'', api_key_confirmed = True,
         srt_content = ''1'' @ [newline] @ ''00:00:01,000 --> 00:00:02,000'' @ [newline]
           @ ''T:Hello world'' @ [newline] @ [newline] @ '' 12 '',
         shown_error = None,
         trace = [Ffmpeg [''ffmpeg'', ''-i'', ''/tmp/tmpx.mp4'', ''-q:a'', ''0'', ''-map'', ''a'',
                    ''/tmp/tmpxxxxxxxxxxxxxx.mp3'', ''-y''],
                  Transcribe ''/tmp/tmpxxxxxxxxxxxxxx.mp3'',
                  LoadModel ''Helsinki-NLP/opus-mt-en-pl'', Translate ''Hello world'']\<rparr>)"
  by (simp add: run_defs sample_marked_pl)

lemma run_service_rejects:
  "script rejecting_service_env sample_request confirmed_session
     = (Completed,
        \<lparr>files = [(''/tmp/tmpxxxxxxxxxxxxxx.mp3'', ''AUDIO'')],
         openai_api_key = Some ''sk-secret'', api_key_confirmed = True,
         srt_content = [],
         shown_error = Some ''An error occurred: Incorrect API key provided'',
         trace = [Ffmpeg [''ffmpeg'', ''-i'', ''/tmp/tmpx.mp4'', ''-q:a'', ''0'', ''-map'', ''a'',
                    ''/tmp/tmpxxxxxxxxxxxxxx.mp3'', ''-y''],
                  Transcribe ''/tmp/tmpxxxxxxxxxxxxxx.mp3'']\<rparr>)"
  by (simp add: run_defs rejecting_service_env_def)

lemma run_model_raises:
  "script failing_model_env sample_request confirmed_session
     = (Completed,
        \<lparr>files = [(''/tmp/tmpxxxxxxxxxxxxxx.mp3'', ''AUDIO'')],
         openai_api_key = Some ''sk-secret'', api_key_confirmed = True,
         srt_content = [],
         shown_error = Some ''An error occurred: Error during translation: out of memory'',
         trace = [Ffmpeg [''ffmpeg'', ''-i'', ''/tmp/tmpx.mp4'', ''-q:a'', ''0'', ''-map'', ''a'',
                    ''/tmp/tmpxxxxxxxxxxxxxx.mp3'', ''-y''],
                  Transcribe ''/tmp/tmpxxxxxxxxxxxxxx.mp3'',
                  LoadModel ''Helsinki-NLP/opus-mt-en-pl'', Translate ''Hello world'']\<rparr>)"
  by (simp add: run_defs failing_model_env_def sample_raising_pl)

lemma run_tool_fails:
  "files (snd (script failing_tool_env sample_request confirmed_session))
     = [(''/tmp/tmpx.mp4'', ''VIDEO''), (''/tmp/tmpxxxxxxxxxxxxxx.mp3'', ''AU'')]"
  by (simp add: run_defs failing_tool_env_def extraction_error_def)



section \<open>The translator\<close>

text \<open>
  Claim C2. With the same code for source and target, \<^verbatim>\<open>translate_subtitles\<close> returns
  the document it was given, and asks nothing of the outside world: no model is loaded
  and no line is sent to one.
\<close>

theorem translate_identity_pair:
  "translate_subtitles hub subtitles lang lang = (Inr subtitles, [])"
  by (simp add: translate_subtitles_def)


text \<open>
  Claim C1, as stated, fails: with a model that answers \<^verbatim>\<open>Hello\<close> in two lines, the
  second line of the input is the index line \<^verbatim>\<open>1\<close> and the second line of the
  document returned is \<^verbatim>\<open>Welt\<close>; the index line and the timing line have moved down
  by one.
\<close>

theorem two_line_answer_shifts_index_line:
  "''en'' \<noteq> ''ru''
   \<and> split_on newline text_first_srt ! 1 = ''1''
   \<and> isdigit (split_on newline text_first_srt ! 1)
   \<and> fst (translate_subtitles two_line_hub text_first_srt ''en'' ''ru'')
       = Inr (''Guten Tag,'' @ [newline] @ ''Welt'' @ [newline] @ ''1'' @ [newline]
               @ ''00:00:01,000 --> 00:00:02,000'')
   \<and> split_on newline
         (''Guten Tag,'' @ [newline] @ ''Welt'' @ [newline] @ ''1'' @ [newline]
               @ ''00:00:01,000 --> 00:00:02,000'') ! 1 = ''Welt''
   \<and> ''Welt'' \<noteq> ''1''"
  by (simp add: text_first_two_lines text_first_lines isdigit_def isdigit_char_def)
     (simp add: newline_def)

text \<open>
  Claim C1, amended. For source and target codes that differ, the document returned is
  the join of one piece for each line of the input, in order. The piece of an index line
  (all digits) and of a timing line (one containing \<^verbatim>\<open>-->\<close>) is that line itself; a
  piece that differs from its line belongs to a line that is neither, and that line was
  sent to the model. When no text the model returns for a line of the input holds a line
  break, the pieces are the lines of the document returned, so that every index line and
  every timing line stands unchanged at its own position.
\<close>

theorem index_and_timing_lines_unchanged:
  assumes "source_lang \<noteq> target_lang"
    and "translate_subtitles hub subtitles source_lang target_lang = (Inr out, sent)"
  shows "\<exists>pieces. out = join_with [newline] pieces
           \<and> length pieces = length (split_on newline subtitles)
           \<and> (\<forall>i < length pieces.
                  (isdigit (split_on newline subtitles ! i)
                     \<or> contains ''-->'' (split_on newline subtitles ! i)
                   \<longrightarrow> pieces ! i = split_on newline subtitles ! i)
                \<and> (pieces ! i \<noteq> split_on newline subtitles ! i
                   \<longrightarrow> \<not> isdigit (split_on newline subtitles ! i)
                       \<and> \<not> contains ''-->'' (split_on newline subtitles ! i)
                       \<and> Translate (split_on newline subtitles ! i) \<in> set sent))
           \<and> ((\<forall>t line answer.
                   load_translation_model hub source_lang target_lang = Inr t
                   \<and> line \<in> set (split_on newline subtitles)
                   \<and> translate_line t line = Inr answer
                   \<longrightarrow> newline \<notin> set answer)
                \<longrightarrow> split_on newline out = pieces)"
proof -
  let ?lines = "split_on newline subtitles"
  from translate_subtitles_returns [OF assms]
  obtain t ps where t: "load_translation_model hub source_lang target_lang = Inr t"
    and out: "out = join_with [newline] ps"
    and ps: "list_all2 (piece_of t) ?lines ps"
    and sent: "sent = LoadModel (''Helsinki-NLP/opus-mt-'' @ source_lang @ ''-'' @ target_lang)
                 # map Translate (filter needs_translation ?lines)"
    by blast
  from ps have len: "length ps = length ?lines"
    by (simp add: list_all2_lengthD)
  have kept: "ps ! i = ?lines ! i" if "i < length ps" "\<not> needs_translation (?lines ! i)" for i
    using list_all2_nthD2 [OF ps that(1)] that(2) by (simp add: piece_of_def)
  have a: "ps ! i = ?lines ! i"
    if "i < length ps" "isdigit (?lines ! i) \<or> contains ''-->'' (?lines ! i)" for i
    using kept [OF that(1)] that(2) digits_pass timing_pass by blast
  have b: "\<not> isdigit (?lines ! i) \<and> \<not> contains ''-->'' (?lines ! i) \<and> Translate (?lines ! i) \<in> set sent"
    if "i < length ps" "ps ! i \<noteq> ?lines ! i" for i
  proof -
    from kept [OF that(1)] that(2) have n: "needs_translation (?lines ! i)" by blast
    from that(1) len have "?lines ! i \<in> set ?lines" by simp
    with n sent have "Translate (?lines ! i) \<in> set sent" by simp
    with n digits_pass timing_pass show ?thesis by blast
  qed
  have c: "split_on newline out = ps"
    if "\<forall>t line answer. load_translation_model hub source_lang target_lang = Inr t
          \<and> line \<in> set ?lines \<and> translate_line t line = Inr answer
          \<longrightarrow> newline \<notin> set answer"
  proof -
    from that t have "\<forall>line answer. line \<in> set ?lines \<and> translate_line t line = Inr answer
        \<longrightarrow> newline \<notin> set answer"
      by blast
    from pieces_one_line [OF ps this] out show ?thesis
      by (simp add: join_pieces_lines [OF ps])
  qed
  from out len a b c show ?thesis by blast
qed

theorem index_and_timing_lines_unchanged_witness:
  "''en'' \<noteq> ''ru''
   \<and> translate_subtitles marking_hub sample_srt ''en'' ''ru''
       = (Inr (''1'' @ [newline] @ ''00:00:01,000 --> 00:00:02,000'' @ [newline] @ ''T:Hello world''
               @ [newline] @ [newline] @ '' 12 ''),
          [LoadModel ''Helsinki-NLP/opus-mt-en-ru'', Translate ''Hello world''])
   \<and> isdigit (split_on newline sample_srt ! 0)
   \<and> contains ''-->'' (split_on newline sample_srt ! 1)
   \<and> split_on newline sample_srt ! 0
       = split_on newline
           (''1'' @ [newline] @ ''00:00:01,000 --> 00:00:02,000'' @ [newline] @ ''T:Hello world''
               @ [newline] @ [newline] @ '' 12 '') ! 0
   \<and> split_on newline sample_srt ! 1
       = split_on newline
           (''1'' @ [newline] @ ''00:00:01,000 --> 00:00:02,000'' @ [newline] @ ''T:Hello world''
               @ [newline] @ [newline] @ '' 12 '') ! 1"
proof -
  let ?out = "''1'' @ [newline] @ ''00:00:01,000 --> 00:00:02,000'' @ [newline] @ ''T:Hello world''
               @ [newline] @ [newline] @ '' 12 ''"
  have ne: "''en'' \<noteq> ''ru''" by simp
  have d: "isdigit (split_on newline sample_srt ! 0)"
    by (simp add: sample_lines isdigit_def isdigit_char_def)
  have c: "contains ''-->'' (split_on newline sample_srt ! 1)"
    by (simp add: sample_lines)
  have one: "\<forall>t line answer. load_translation_model marking_hub ''en'' ''ru'' = Inr t
          \<and> line \<in> set (split_on newline sample_srt) \<and> translate_line t line = Inr answer
          \<longrightarrow> newline \<notin> set answer"
    using marking_hub_loads marking_answers_one_line by blast
  from index_and_timing_lines_unchanged [OF ne sample_marked]
  obtain pieces where len: "length pieces = length (split_on newline sample_srt)"
    and kept: "\<forall>i < length pieces.
                  (isdigit (split_on newline sample_srt ! i)
                     \<or> contains ''-->'' (split_on newline sample_srt ! i)
                   \<longrightarrow> pieces ! i = split_on newline sample_srt ! i)"
    and phys: "(\<forall>t line answer. load_translation_model marking_hub ''en'' ''ru'' = Inr t
          \<and> line \<in> set (split_on newline sample_srt) \<and> translate_line t line = Inr answer
          \<longrightarrow> newline \<notin> set answer) \<longrightarrow> split_on newline ?out = pieces"
    by blast
  from phys one have eq: "split_on newline ?out = pieces" by (rule mp)
  from len have l: "0 < length pieces" "1 < length pieces" by (simp_all add: sample_lines)
  from kept l(1) d have "pieces ! 0 = split_on newline sample_srt ! 0" by blast
  moreover from kept l(2) c have "pieces ! 1 = split_on newline sample_srt ! 1" by blast
  ultimately have "split_on newline sample_srt ! 0 = split_on newline ?out ! 0"
    and "split_on newline sample_srt ! 1 = split_on newline ?out ! 1"
    using eq by simp_all
  with ne sample_marked d c show ?thesis by (intro conjI)
qed

text \<open>
  Claim C3, as stated, fails: the blank line of the sample is neither all digits nor a
  timing line, and it is not sent to the model.
\<close>

theorem blank_line_not_sent:
  "[] \<in> set (split_on newline sample_srt)
   \<and> \<not> isdigit [] \<and> \<not> contains ''-->'' []
   \<and> fst (translate_subtitles marking_hub sample_srt ''en'' ''ru'')
       = Inr (''1'' @ [newline] @ ''00:00:01,000 --> 00:00:02,000'' @ [newline] @ ''T:Hello world''
               @ [newline] @ [newline] @ '' 12 '')
   \<and> Translate [] \<notin> set (snd (translate_subtitles marking_hub sample_srt ''en'' ''ru''))"
  by (simp add: sample_marked sample_lines isdigit_def)

text \<open>
  Claim C3, amended. When the call returns a document for codes that differ, every line
  of the input whose stripped content is not empty and not all digits, and that does not
  contain \<^verbatim>\<open>-->\<close>, is sent to the model; a line whose stripped content is empty
  or all digits is not sent.
\<close>

theorem textual_lines_sent_blank_lines_not:
  assumes "source_lang \<noteq> target_lang"
    and "translate_subtitles hub subtitles source_lang target_lang = (Inr out, sent)"
    and "line \<in> set (split_on newline subtitles)"
  shows "(strip line \<noteq> [] \<and> \<not> isdigit (strip line) \<and> \<not> contains ''-->'' line
            \<longrightarrow> Translate line \<in> set sent)
       \<and> (strip line = [] \<or> isdigit (strip line) \<longrightarrow> Translate line \<notin> set sent)"
proof -
  from translate_subtitles_returns [OF assms(1,2)]
  have "sent = LoadModel (''Helsinki-NLP/opus-mt-'' @ source_lang @ ''-'' @ target_lang)
                 # map Translate (filter needs_translation (split_on newline subtitles))"
    by blast
  with assms(3) show ?thesis
    by (auto simp: needs_translation_def)
qed

theorem textual_lines_sent_blank_lines_not_witness:
  "''en'' \<noteq> ''ru''
   \<and> translate_subtitles marking_hub sample_srt ''en'' ''ru''
       = (Inr (''1'' @ [newline] @ ''00:00:01,000 --> 00:00:02,000'' @ [newline] @ ''T:Hello world''
               @ [newline] @ [newline] @ '' 12 ''),
          [LoadModel ''Helsinki-NLP/opus-mt-en-ru'', Translate ''Hello world''])
   \<and> ''Hello world'' \<in> set (split_on newline sample_srt)
   \<and> strip ''Hello world'' \<noteq> [] \<and> \<not> isdigit (strip ''Hello world'')
   \<and> \<not> contains ''-->'' ''Hello world''
   \<and> Translate ''Hello world'' \<in> set [LoadModel ''Helsinki-NLP/opus-mt-en-ru'', Translate ''Hello world'']
   \<and> '' 12 '' \<in> set (split_on newline sample_srt)
   \<and> isdigit (strip '' 12 '')
   \<and> Translate '' 12 '' \<notin> set [LoadModel ''Helsinki-NLP/opus-mt-en-ru'', Translate ''Hello world'']"
proof -
  have ne: "''en'' \<noteq> ''ru''" by simp
  have h: "''Hello world'' \<in> set (split_on newline sample_srt)"
    and p: "'' 12 '' \<in> set (split_on newline sample_srt)"
    by (simp_all add: sample_lines)
  have facts: "strip ''Hello world'' \<noteq> []" "\<not> isdigit (strip ''Hello world'')"
    "\<not> contains ''-->'' ''Hello world''" "isdigit (strip '' 12 '')"
    by (simp_all add: strip_def isdigit_def isspace_char_def isdigit_char_def)
  from textual_lines_sent_blank_lines_not [OF ne sample_marked h]
    textual_lines_sent_blank_lines_not [OF ne sample_marked p] facts ne sample_marked h p
  show ?thesis by blast
qed

text \<open>
  Claim C4. When the model is loaded and the translation of some line that the loop
  translates raises, \<^verbatim>\<open>translate_subtitles\<close> raises a \<^verbatim>\<open>RuntimeError\<close> whose text
  starts with \<^verbatim>\<open>Error during translation\<close> and carries the text of the exception of
  a line of the input; no document is returned.
\<close>

theorem failing_line_fails_request:
  assumes "source_lang \<noteq> target_lang"
    and "load_translation_model hub source_lang target_lang = Inr translator"
    and "line \<in> set (split_on newline subtitles)"
    and "strip line \<noteq> [] \<and> \<not> isdigit (strip line) \<and> \<not> contains ''-->'' line"
    and "translate_line translator line = Inl e"
  shows "\<exists>line' e'. line' \<in> set (split_on newline subtitles)
           \<and> translate_line translator line' = Inl e'
           \<and> fst (translate_subtitles hub subtitles source_lang target_lang)
               = Inl (Exn RuntimeError (''Error during translation: '' @ str_of e'))"
proof -
  let ?start = "[LoadModel (''Helsinki-NLP/opus-mt-'' @ source_lang @ ''-'' @ target_lang)]"
  from assms(4) have "needs_translation line" by (simp add: needs_translation_def)
  from loop_fail [OF assms(3) this assms(5), of "[]" ?start]
  obtain line' e' where l: "line' \<in> set (split_on newline subtitles)"
    "translate_line translator line' = Inl e'"
    "fst (translate_loop translator (split_on newline subtitles) [] ?start) = Inl e'"
    by blast
  from l(3) assms(1,2)
  have "fst (translate_subtitles hub subtitles source_lang target_lang) = Inl (translation_error e')"
    by (cases "translate_loop translator (split_on newline subtitles) [] ?start")
       (simp add: translate_subtitles_def)
  with l(1,2) show ?thesis unfolding translation_error_def by blast
qed

theorem failing_line_fails_request_witness:
  "''en'' \<noteq> ''ru''
   \<and> load_translation_model raising_hub ''en'' ''ru'' = Inr raising_translator
   \<and> ''Hello world'' \<in> set (split_on newline sample_srt)
   \<and> strip ''Hello world'' \<noteq> [] \<and> \<not> isdigit (strip ''Hello world'')
   \<and> \<not> contains ''-->'' ''Hello world''
   \<and> translate_line raising_translator ''Hello world'' = Inl (Exn OtherException ''out of memory'')
   \<and> fst (translate_subtitles raising_hub sample_srt ''en'' ''ru'')
       = Inl (Exn RuntimeError ''Error during translation: out of memory'')"
proof -
  have ne: "''en'' \<noteq> ''ru''" by simp
  have ld: "load_translation_model raising_hub ''en'' ''ru'' = Inr raising_translator"
    by (simp add: load_translation_model_def raising_hub_def)
  have h: "''Hello world'' \<in> set (split_on newline sample_srt)"
    by (simp add: sample_lines)
  have facts: "strip ''Hello world'' \<noteq> [] \<and> \<not> isdigit (strip ''Hello world'')
      \<and> \<not> contains ''-->'' ''Hello world''"
    by (simp add: strip_def isdigit_def isspace_char_def isdigit_char_def)
  have r: "translate_line raising_translator l = Inl (Exn OtherException ''out of memory'')" for l
    by (simp add: translate_line_def raising_translator_def)
  from failing_line_fails_request [OF ne ld h facts r]
  have "fst (translate_subtitles raising_hub sample_srt ''en'' ''ru'')
       = Inl (Exn RuntimeError ''Error during translation: out of memory'')"
    by (auto simp: r)
  with ne ld h facts r show ?thesis by blast
qed


text \<open>
  Claim C9. The test: the stripped content of the line is not empty and not all digits,
  and the line does not contain \<^verbatim>\<open>-->\<close>. For codes that differ, what is sent after
  the request that loads the model is an initial part of the lines passing the test, in
  their order (the run ends at the first exception), so a line is sent only if it is a
  line of the input passing the test. When the call returns a document, the lines sent
  are all the lines passing the test, and the piece of every line failing it is the line
  itself.
\<close>

theorem sent_exactly_when_condition_holds:
  assumes "source_lang \<noteq> target_lang"
    and "translate_subtitles hub subtitles source_lang target_lang = (result, sent)"
  shows "(\<exists>k. sent = LoadModel (''Helsinki-NLP/opus-mt-'' @ source_lang @ ''-'' @ target_lang)
                      # map Translate
                          (take k
                             (filter (\<lambda>line. strip line \<noteq> [] \<and> \<not> isdigit (strip line)
                                               \<and> \<not> contains ''-->'' line)
                                (split_on newline subtitles))))
       \<and> (\<forall>line. Translate line \<in> set sent
            \<longrightarrow> line \<in> set (split_on newline subtitles)
                \<and> strip line \<noteq> [] \<and> \<not> isdigit (strip line) \<and> \<not> contains ''-->'' line)
       \<and> (\<forall>out. result = Inr out \<longrightarrow>
             sent = LoadModel (''Helsinki-NLP/opus-mt-'' @ source_lang @ ''-'' @ target_lang)
                      # map Translate
                          (filter (\<lambda>line. strip line \<noteq> [] \<and> \<not> isdigit (strip line)
                                            \<and> \<not> contains ''-->'' line)
                             (split_on newline subtitles))
             \<and> (\<exists>pieces. out = join_with [newline] pieces
                   \<and> length pieces = length (split_on newline subtitles)
                   \<and> (\<forall>i < length pieces.
                          \<not> (strip (split_on newline subtitles ! i) \<noteq> []
                              \<and> \<not> isdigit (strip (split_on newline subtitles ! i))
                              \<and> \<not> contains ''-->'' (split_on newline subtitles ! i))
                          \<longrightarrow> pieces ! i = split_on newline subtitles ! i)))"
proof -
  let ?lines = "split_on newline subtitles"
  from translate_subtitles_sent [OF assms(1), of hub subtitles] assms(2)
  obtain k where k: "sent = LoadModel (''Helsinki-NLP/opus-mt-'' @ source_lang @ ''-'' @ target_lang)
      # map Translate (take k (filter needs_translation ?lines))"
    by auto
  have only: "line \<in> set ?lines \<and> needs_translation line" if "Translate line \<in> set sent" for line
  proof -
    from that k have "line \<in> set (take k (filter needs_translation ?lines))" by auto
    then have "line \<in> set (filter needs_translation ?lines)" by (rule in_set_takeD)
    then show ?thesis by simp
  qed
  have ok: "sent = LoadModel (''Helsinki-NLP/opus-mt-'' @ source_lang @ ''-'' @ target_lang)
                 # map Translate (filter needs_translation ?lines)
      \<and> (\<exists>pieces. out = join_with [newline] pieces \<and> length pieces = length ?lines
            \<and> (\<forall>i < length pieces. \<not> needs_translation (?lines ! i) \<longrightarrow> pieces ! i = ?lines ! i))"
    if "result = Inr out" for out
  proof -
    from translate_subtitles_returns [OF assms(1) assms(2) [unfolded that]]
    obtain t ps where out: "out = join_with [newline] ps"
      and ps: "list_all2 (piece_of t) ?lines ps"
      and sent: "sent = LoadModel (''Helsinki-NLP/opus-mt-'' @ source_lang @ ''-'' @ target_lang)
                 # map Translate (filter needs_translation ?lines)"
      by blast
    from ps have len: "length ps = length ?lines" by (simp add: list_all2_lengthD)
    have "ps ! i = ?lines ! i" if "i < length ps" "\<not> needs_translation (?lines ! i)" for i
      using list_all2_nthD2 [OF ps that(1)] that(2) by (simp add: piece_of_def)
    with out len sent show ?thesis by blast
  qed
  show ?thesis
    unfolding needs_translation_def [symmetric]
  proof (intro conjI allI impI)
    from k show "\<exists>k. sent
        = LoadModel (''Helsinki-NLP/opus-mt-'' @ source_lang @ ''-'' @ target_lang)
            # map Translate (take k (filter needs_translation ?lines))"
      by blast
  next
    fix line assume "Translate line \<in> set sent"
    from only [OF this] show "line \<in> set ?lines" and "needs_translation line" by simp_all
  next
    fix out assume r: "result = Inr out"
    from ok [OF r]
    show "sent = LoadModel (''Helsinki-NLP/opus-mt-'' @ source_lang @ ''-'' @ target_lang)
        # map Translate (filter needs_translation ?lines)"
      by (rule conjunct1)
    from ok [OF r]
    show "\<exists>pieces. out = join_with [newline] pieces \<and> length pieces = length ?lines
        \<and> (\<forall>i < length pieces. \<not> needs_translation (?lines ! i) \<longrightarrow> pieces ! i = ?lines ! i)"
      by (rule conjunct2)
  qed
qed


theorem sent_exactly_when_condition_holds_witness:
  "''en'' \<noteq> ''ru''
   \<and> translate_subtitles marking_hub sample_srt ''en'' ''ru''
       = (Inr (''1'' @ [newline] @ ''00:00:01,000 --> 00:00:02,000'' @ [newline] @ ''T:Hello world''
               @ [newline] @ [newline] @ '' 12 ''),
          [LoadModel ''Helsinki-NLP/opus-mt-en-ru'', Translate ''Hello world''])
   \<and> [LoadModel ''Helsinki-NLP/opus-mt-en-ru'', Translate ''Hello world'']
       = LoadModel (''Helsinki-NLP/opus-mt-'' @ ''en'' @ ''-'' @ ''ru'')
           # map Translate
               (filter (\<lambda>line. strip line \<noteq> [] \<and> \<not> isdigit (strip line)
                                 \<and> \<not> contains ''-->'' line)
                  (split_on newline sample_srt))
   \<and> ''Hello world'' \<in> set (split_on newline sample_srt)
   \<and> strip ''Hello world'' \<noteq> [] \<and> \<not> isdigit (strip ''Hello world'')
   \<and> \<not> contains ''-->'' ''Hello world''"
proof -
  have ne: "''en'' \<noteq> ''ru''" by simp
  have m: "Translate ''Hello world''
      \<in> set [LoadModel ''Helsinki-NLP/opus-mt-en-ru'', Translate ''Hello world'']"
    by simp
  note inst = sent_exactly_when_condition_holds [OF ne sample_marked]
  note a = inst [THEN conjunct2, THEN conjunct1, rule_format, OF m]
  note b = inst [THEN conjunct2, THEN conjunct2, rule_format, OF refl, THEN conjunct1]
  from ne sample_marked b a show ?thesis by (intro conjI) simp_all
qed

text \<open>
  Claim C10, as stated, fails: a model that answers \<^verbatim>\<open>Hello\<close> in two lines turns a
  document of one line into a document of two.
\<close>

theorem two_line_answer_adds_a_line:
  "fst (translate_subtitles two_line_hub ''Hello'' ''en'' ''ru'')
     = Inr (''Guten Tag,'' @ [newline] @ ''Welt'')
   \<and> length (split_on newline ''Hello'') = 1
   \<and> length (split_on newline (''Guten Tag,'' @ [newline] @ ''Welt'')) = 2"
  by (simp add: sample_two_lines) (simp add: newline_def)

text \<open>
  Claim C10, amended. The document returned is the join of exactly one piece for each line
  of the input; it has as many lines as the input whenever no text the model returns for
  a line of the input holds a line break.
\<close>

theorem one_piece_per_line:
  assumes "translate_subtitles hub subtitles source_lang target_lang = (Inr out, sent)"
  shows "(\<exists>pieces. out = join_with [newline] pieces
            \<and> length pieces = length (split_on newline subtitles))
       \<and> ((\<forall>t line answer.
               load_translation_model hub source_lang target_lang = Inr t
               \<and> line \<in> set (split_on newline subtitles)
               \<and> translate_line t line = Inr answer
               \<longrightarrow> newline \<notin> set answer)
            \<longrightarrow> length (split_on newline out) = length (split_on newline subtitles))"
proof (cases "source_lang = target_lang")
  case True
  with assms have same: "out = subtitles" by (simp add: translate_subtitles_def)
  then have "out = join_with [newline] (split_on newline subtitles)"
    by (simp add: join_with_split_on)
  with same show ?thesis by blast
next
  case False
  from translate_subtitles_returns [OF False assms]
  obtain t ps where t: "load_translation_model hub source_lang target_lang = Inr t"
    and out: "out = join_with [newline] ps"
    and ps: "list_all2 (piece_of t) (split_on newline subtitles) ps"
    by blast
  from ps have len: "length ps = length (split_on newline subtitles)"
    by (simp add: list_all2_lengthD)
  have "length (split_on newline out) = length (split_on newline subtitles)"
    if "\<forall>t line answer. load_translation_model hub source_lang target_lang = Inr t
          \<and> line \<in> set (split_on newline subtitles) \<and> translate_line t line = Inr answer
          \<longrightarrow> newline \<notin> set answer"
  proof -
    from that t have "\<forall>line answer. line \<in> set (split_on newline subtitles)
        \<and> translate_line t line = Inr answer \<longrightarrow> newline \<notin> set answer"
      by blast
    from pieces_one_line [OF ps this] out len show ?thesis
      by (simp add: join_pieces_lines [OF ps])
  qed
  with out len show ?thesis by blast
qed

theorem one_piece_per_line_witness:
  "translate_subtitles marking_hub sample_srt ''en'' ''ru''
       = (Inr (''1'' @ [newline] @ ''00:00:01,000 --> 00:00:02,000'' @ [newline] @ ''T:Hello world''
               @ [newline] @ [newline] @ '' 12 ''),
          [LoadModel ''Helsinki-NLP/opus-mt-en-ru'', Translate ''Hello world''])
   \<and> length (split_on newline
         (''1'' @ [newline] @ ''00:00:01,000 --> 00:00:02,000'' @ [newline] @ ''T:Hello world''
               @ [newline] @ [newline] @ '' 12 ''))
       = length (split_on newline sample_srt)
   \<and> length (split_on newline sample_srt) = 5"
proof -
  have one: "\<forall>t line answer. load_translation_model marking_hub ''en'' ''ru'' = Inr t
          \<and> line \<in> set (split_on newline sample_srt) \<and> translate_line t line = Inr answer
          \<longrightarrow> newline \<notin> set answer"
    using marking_hub_loads marking_answers_one_line by blast
  note inst = one_piece_per_line [OF sample_marked, THEN conjunct2, THEN mp, OF one]
  have "length (split_on newline sample_srt) = 5" by (simp add: sample_lines)
  with sample_marked inst show ?thesis by (intro conjI)
qed

section \<open>Extraction, transcription and the run\<close>

text \<open>
  Claim C7. When a file operation fails or the tool does not exit with code 0,
  \<^verbatim>\<open>extract_audio_to_mp3\<close> raises a \<^verbatim>\<open>RuntimeError\<close>. Otherwise it returns the path
  of a file that holds all the tool wrote on a run that exited with code 0, and the
  temporary input file no longer exists.
\<close>

theorem extract_audio_complete_or_error:
  "(extraction_fault env video_file
      \<longrightarrow> (\<exists>m. fst (extract_audio_to_mp3 env video_file w) = Inl (Exn RuntimeError m)))
   \<and> (\<not> extraction_fault env video_file
      \<longrightarrow> (\<exists>p audio. fst (extract_audio_to_mp3 env video_file w) = Inr p
             \<and> ffmpeg env (Some video_file) = Exited 0 audio
             \<and> map_of (files (snd (extract_audio_to_mp3 env video_file w))) p = Some audio
             \<and> map_of (files (snd (extract_audio_to_mp3 env video_file w)))
                  (temp_name (files w) ''.mp4'') = None))"
proof (intro conjI impI)
  assume "extraction_fault env video_file"
  from extract_audio_faulty [OF this, of w]
  obtain e where "fst (extract_audio_to_mp3 env video_file w) = Inl (extraction_error e)"
    by blast
  then show "\<exists>m. fst (extract_audio_to_mp3 env video_file w) = Inl (Exn RuntimeError m)"
    by (auto simp: extraction_error_def)
next
  assume ok: "\<not> extraction_fault env video_file"
  then obtain audio where run: "ffmpeg env (Some video_file) = Exited 0 audio"
    by (cases "ffmpeg env (Some video_file)") (auto simp: extraction_fault_def)
  from ok have "io_fault env CreateVideoTemp = None" "io_fault env WriteVideoTemp = None"
    "io_fault env CreateAudioTemp = None" "io_fault env RemoveVideoTemp = None"
    by (auto simp: extraction_fault_def)
  from extract_audio_ok [OF this(1,2,3) run this(4), of w] run
  show "\<exists>p audio. fst (extract_audio_to_mp3 env video_file w) = Inr p
      \<and> ffmpeg env (Some video_file) = Exited 0 audio
      \<and> map_of (files (snd (extract_audio_to_mp3 env video_file w))) p = Some audio
      \<and> map_of (files (snd (extract_audio_to_mp3 env video_file w)))
           (temp_name (files w) ''.mp4'') = None"
    by auto
qed

theorem extract_audio_complete_or_error_witness:
  "extraction_fault failing_tool_env ''VIDEO''
   \<and> (\<exists>m. fst (extract_audio_to_mp3 failing_tool_env ''VIDEO'' confirmed_session)
          = Inl (Exn RuntimeError m))
   \<and> \<not> extraction_fault working_env ''VIDEO''
   \<and> (\<exists>p audio. fst (extract_audio_to_mp3 working_env ''VIDEO'' confirmed_session) = Inr p
          \<and> ffmpeg working_env (Some ''VIDEO'') = Exited 0 audio
          \<and> map_of (files (snd (extract_audio_to_mp3 working_env ''VIDEO'' confirmed_session))) p
               = Some audio
          \<and> map_of (files (snd (extract_audio_to_mp3 working_env ''VIDEO'' confirmed_session)))
               (temp_name (files confirmed_session) ''.mp4'') = None)"
proof -
  have bad: "extraction_fault failing_tool_env ''VIDEO''"
    by (simp add: extraction_fault_def failing_tool_env_def working_env_def)
  have good: "\<not> extraction_fault working_env ''VIDEO''"
    by (simp add: extraction_fault_def working_env_def)
  note a = extract_audio_complete_or_error
    [of failing_tool_env "''VIDEO''" confirmed_session, THEN conjunct1, THEN mp, OF bad]
  note b = extract_audio_complete_or_error
    [of working_env "''VIDEO''" confirmed_session, THEN conjunct2, THEN mp, OF good]
  from bad a good b show ?thesis by (intro conjI)
qed

text \<open>
  Claim C5 on four runs that start with an empty temporary directory. The run in which
  every stage works ends with the directory empty. The run in which the service raises
  and the run in which the model raises end with the audio file still there; the run in
  which the tool exits with code 1 ends with the video file and the audio file still
  there.
\<close>

theorem failed_run_leaves_temporary_files:
  "files confirmed_session = []
   \<and> files (snd (script working_env sample_request confirmed_session)) = []
   \<and> files (snd (script rejecting_service_env sample_request confirmed_session))
       = [(''/tmp/tmpxxxxxxxxxxxxxx.mp3'', ''AUDIO'')]
   \<and> files (snd (script failing_model_env sample_request confirmed_session))
       = [(''/tmp/tmpxxxxxxxxxxxxxx.mp3'', ''AUDIO'')]
   \<and> files (snd (script failing_tool_env sample_request confirmed_session))
       = [(''/tmp/tmpx.mp4'', ''VIDEO''), (''/tmp/tmpxxxxxxxxxxxxxx.mp3'', ''AU'')]"
  by (simp add: run_works run_service_rejects run_model_raises run_tool_fails)
     (simp add: confirmed_session_def)





end
